theory Spec2Isabelle
  imports Main "HOL-Library.AList"
begin

section \<open>Values, objects and the store\<close>

text \<open>
  The cluster class is dynamically typed where it matters: the constructor takes
  \<^verbatim>\<open>...args: any[]\<close> and decides by \<^verbatim>\<open>typeof\<close> and by truthiness, and
  \<^verbatim>\<open>normalizeOptions\<close> writes into the options object the caller handed over. So
  values are tagged, and plain objects live in a store and are referred to by address:
  two references to one address are one object, as in JavaScript.

  Numbers are integers here (worker counts, ports, pids); \<^verbatim>\<open>NaN\<close> and fractions are
  not represented. Arrays and functions are values with no properties of their own: the
  source never writes into an array it was given, and a run that would read or write a
  property of one ends as \<open>Unmodelled\<close> (see below).
\<close>

type_synonym addr = nat

datatype val =
    Undefined
  | Null
  | Bool bool
  | Num int
  | Str string
  | Fun nat
  | Arr "val list"
  | Ref addr

text \<open>A plain object: its own enumerable properties, in enumeration order.\<close>

type_synonym object = "(string \<times> val) list"

type_synonym heap = "object list"

text \<open>
  What a run can end with instead of a value: an exception the source throws itself
  (\<^verbatim>\<open>throw new Error(...)\<close>, \<^verbatim>\<open>throw err\<close>); a \<^verbatim>\<open>TypeError\<close> of the runtime
  (a property of \<^verbatim>\<open>undefined\<close> or \<^verbatim>\<open>null\<close>); or \<open>Unmodelled\<close>: the run
  reached an operation this model has no account of (a property of a string, number,
  boolean, array or function, a dangling address, a loop bound that is not a number).
\<close>

datatype js_error = Error string

datatype failure = Thrown js_error | TypeError | Unmodelled

definition and_then :: "failure + 'a \<Rightarrow> ('a \<Rightarrow> failure + 'b) \<Rightarrow> failure + 'b" where
  "and_then r f = (case r of Inl e \<Rightarrow> Inl e | Inr x \<Rightarrow> f x)"

fun truthy :: "val \<Rightarrow> bool" where
  "truthy Undefined = False"
| "truthy Null = False"
| "truthy (Bool b) = b"
| "truthy (Num n) = (n \<noteq> 0)"
| "truthy (Str s) = (s \<noteq> [])"
| "truthy (Fun f) = True"
| "truthy (Arr xs) = True"
| "truthy (Ref a) = True"

fun typeof :: "val \<Rightarrow> string" where
  "typeof Undefined = ''undefined''"
| "typeof Null = ''object''"
| "typeof (Bool b) = ''boolean''"
| "typeof (Num n) = ''number''"
| "typeof (Str s) = ''string''"
| "typeof (Fun f) = ''function''"
| "typeof (Arr xs) = ''object''"
| "typeof (Ref a) = ''object''"

fun isArray :: "val \<Rightarrow> bool" where
  "isArray (Arr xs) = True"
| "isArray v = False"

text \<open>\<^verbatim>\<open>a || b\<close>\<close>

definition js_or :: "val \<Rightarrow> val \<Rightarrow> val" where
  "js_or a b = (if truthy a then a else b)"

text \<open>\<^verbatim>\<open>{}\<close>: a new empty object at the next free address.\<close>

definition alloc :: "heap \<Rightarrow> object \<Rightarrow> addr \<times> heap" where
  "alloc h ob = (length h, h @ [ob])"

text \<open>
  \<^verbatim>\<open>o[k]\<close> and \<^verbatim>\<open>o.k\<close>: the own property, \<^verbatim>\<open>undefined\<close> when there is none.
  The names the source reads (\<^verbatim>\<open>events\<close>, \<^verbatim>\<open>listen\<close>, \<^verbatim>\<open>port\<close>, ...) and the
  keys of its \<^verbatim>\<open>for ... in\<close> are not names of \<^verbatim>\<open>Object.prototype\<close>, so the
  prototype is left out.
\<close>

definition own :: "object \<Rightarrow> string \<Rightarrow> val" where
  "own ob k = (case map_of ob k of None \<Rightarrow> Undefined | Some v \<Rightarrow> v)"

fun get_prop :: "heap \<Rightarrow> val \<Rightarrow> string \<Rightarrow> failure + val" where
  "get_prop h (Ref a) k = (if a < length h then Inr (own (h ! a) k) else Inl Unmodelled)"
| "get_prop h Undefined k = Inl TypeError"
| "get_prop h Null k = Inl TypeError"
| "get_prop h v k = Inl Unmodelled"

text \<open>\<^verbatim>\<open>o[k] = v\<close>: an existing property keeps its place, a new one goes last.\<close>

fun set_prop :: "heap \<Rightarrow> val \<Rightarrow> string \<Rightarrow> val \<Rightarrow> failure + heap" where
  "set_prop h (Ref a) k v =
     (if a < length h then Inr (h[a := AList.update k v (h ! a)]) else Inl Unmodelled)"
| "set_prop h Undefined k v = Inl TypeError"
| "set_prop h Null k v = Inl TypeError"
| "set_prop h w k v = Inl Unmodelled"

text \<open>
  The keys a \<^verbatim>\<open>for (const key in o)\<close> visits, taken when the loop starts. Over
  \<^verbatim>\<open>undefined\<close>, \<^verbatim>\<open>null\<close>, a number, a boolean or a function the loop has no
  iteration; over a string or an array it visits the indices, which are not modelled.
\<close>

fun for_in_keys :: "heap \<Rightarrow> val \<Rightarrow> failure + string list" where
  "for_in_keys h (Ref a) = (if a < length h then Inr (map fst (h ! a)) else Inl Unmodelled)"
| "for_in_keys h (Str s) = Inl Unmodelled"
| "for_in_keys h (Arr xs) = Inl Unmodelled"
| "for_in_keys h v = Inr []"

section \<open>The cluster object and its constructor\<close>

text \<open>
  The class declares three fields and extends \<^verbatim>\<open>EventEmitter\<close>, whose state is the
  listeners subscribed so far, each with its event, in the order they subscribed.
\<close>

record cluster =
  options :: val
  app :: val
  instances :: val
  listeners :: "(string \<times> val) list"

text \<open>
  \<^verbatim>\<open>
  on(event: string, listener: (...args: any[]) => void) {
      return super.on(event, listener);
  }
  \<close>
\<close>

definition on :: "cluster \<Rightarrow> string \<Rightarrow> val \<Rightarrow> cluster" where
  "on this event listener = this\<lparr>listeners := listeners this @ [(event, listener)]\<rparr>"

text \<open>
  \<^verbatim>\<open>
  for (const key in opts.events)
      if (!Array.isArray(opts.events[key]))
          opts.events[key] = [opts.events[key]];
  \<close>
  The body reads \<^verbatim>\<open>opts.events\<close> again on every iteration.
\<close>

fun wrap_events :: "val \<Rightarrow> string list \<Rightarrow> heap \<Rightarrow> failure + heap" where
  "wrap_events opts [] h = Inr h"
| "wrap_events opts (key # keys) h =
     and_then (get_prop h opts ''events'') (\<lambda>ev.
     and_then (get_prop h ev key) (\<lambda>v.
     if \<not> isArray v
     then and_then (set_prop h ev key (Arr [v])) (\<lambda>h'. wrap_events opts keys h')
     else wrap_events opts keys h))"

text \<open>
  \<^verbatim>\<open>
  function normalizeOptions(cls: Cluster) {
      let opts = cls.options;
      if (!opts)          cls.options = opts = {};
      if (!cls.instances) cls.instances = cpus().length;
      if (!opts.events)   opts.events = {};
      if (!opts.listen)   opts.listen = {};
      for (const key in opts.events) ...
  }
  \<close>
  \<open>ncpus\<close> is \<^verbatim>\<open>cpus().length\<close>, a fact of the host. The function returns nothing:
  its result is the cluster object and the store as it leaves them.
\<close>

definition default_field :: "val \<Rightarrow> string \<Rightarrow> heap \<Rightarrow> failure + heap" where
  "default_field opts k h =
     and_then (get_prop h opts k) (\<lambda>v.
     if \<not> truthy v
     then (let (a, h') = alloc h [] in set_prop h' opts k (Ref a))
     else Inr h)"

definition normalizeOptions :: "nat \<Rightarrow> cluster \<Rightarrow> heap \<Rightarrow> failure + (cluster \<times> heap)" where
  "normalizeOptions ncpus cls h =
     (let (cls1, opts, h1) =
            (if \<not> truthy (options cls)
             then (let (a, h') = alloc h [] in (cls\<lparr>options := Ref a\<rparr>, Ref a, h'))
             else (cls, options cls, h));
          cls2 = (if \<not> truthy (instances cls1)
                  then cls1\<lparr>instances := Num (int ncpus)\<rparr> else cls1)
      in and_then (default_field opts ''events'' h1) (\<lambda>h2.
         and_then (default_field opts ''listen'' h2) (\<lambda>h3.
         and_then (get_prop h3 opts ''events'') (\<lambda>ev.
         and_then (for_in_keys h3 ev) (\<lambda>keys.
         and_then (wrap_events opts keys h3) (\<lambda>h4.
         Inr (cls2, h4)))))))"

text \<open>
  \<^verbatim>\<open>
  constructor(...args: any[]) {
      super();
      const firstArg = args[0], nextArg = args[1], lastArg = args[2];
      if (typeof firstArg !== "function")
          throw new Error("Target app is not specified");
      this.app = firstArg;
      if (nextArg) {
          if (lastArg) { this.options = lastArg; this.instances = nextArg; }
          else {
              if (typeof nextArg === "number") this.instances = nextArg;
              else this.options = nextArg;
          }
      }
      normalizeOptions(this);
  }
  \<close>
  An argument that was not passed reads as \<^verbatim>\<open>undefined\<close>. \<^verbatim>\<open>super()\<close> makes
  an emitter that has no listener yet.
\<close>

definition arg :: "val list \<Rightarrow> nat \<Rightarrow> val" where
  "arg args i = (if i < length args then args ! i else Undefined)"

definition new_Cluster :: "nat \<Rightarrow> val list \<Rightarrow> heap \<Rightarrow> failure + (cluster \<times> heap)" where
  "new_Cluster ncpus args h =
     (let firstArg = arg args 0; nextArg = arg args 1; lastArg = arg args 2 in
      if typeof firstArg \<noteq> ''function''
      then Inl (Thrown (Error ''Target app is not specified''))
      else
        (let this0 = \<lparr>options = Undefined, app = firstArg, instances = Undefined, listeners = []\<rparr>;
             this1 =
               (if truthy nextArg then
                  (if truthy lastArg
                   then this0\<lparr>options := lastArg, instances := nextArg\<rparr>
                   else if typeof nextArg = ''number''
                        then this0\<lparr>instances := nextArg\<rparr>
                        else this0\<lparr>options := nextArg\<rparr>)
                else this0)
         in normalizeOptions ncpus this1 h))"

section \<open>Effects\<close>

text \<open>
  What \<^verbatim>\<open>start()\<close> and the two event handlers do is calls into collaborators: the
  process runtime, the console, the HTTP server and the listeners subscribed to this
  emitter. The model records each call, in the order the calls are made; what a
  collaborator does inside the call (a listener's body, the server's binding) is not
  part of the model, with two exceptions: \<^verbatim>\<open>process.exit()\<close> does not return, and
  \<^verbatim>\<open>emit\<close> of the inherited emitter throws on an \<^verbatim>\<open>error\<close> event that has no
  listener (see \<open>emit\<close> below). The listeners themselves are taken to return.
\<close>

record worker =
  worker_id :: nat
  worker_pid :: nat

datatype payload = PError js_error | PProcess nat | PWorker worker | PVal val

datatype effect =
    Fork worker
  | Emit string "payload list"
  | WorkerOn worker string
  | ClusterOn string
  | ProcessOn string
  | CreateServer bool val val
  | Listen val val val val
  | ConsoleLog "val list"
  | ProcessEmit string
  | ProcessExit

text \<open>
  A run is the calls made so far and how it went on: it returned a value, it was cut
  short by a failure, or the process exited.
\<close>

datatype stop = Failed failure | Exited

type_synonym 'a run = "effect list \<times> (stop + 'a)"

definition pure :: "'a \<Rightarrow> 'a run" where
  "pure x = ([], Inr x)"

definition eff :: "effect \<Rightarrow> unit run" where
  "eff e = ([e], Inr ())"

definition lift :: "failure + 'a \<Rightarrow> 'a run" where
  "lift r = (case r of Inl f \<Rightarrow> ([], Inl (Failed f)) | Inr x \<Rightarrow> ([], Inr x))"

definition throw :: "js_error \<Rightarrow> 'a run" where
  "throw err = ([], Inl (Failed (Thrown err)))"

definition process_exit :: "unit run" where
  "process_exit = ([ProcessExit], Inl Exited)"

definition seq :: "'a run \<Rightarrow> ('a \<Rightarrow> 'b run) \<Rightarrow> 'b run" where
  "seq m f =
     (case m of
        (t, Inl s) \<Rightarrow> (t, Inl s)
      | (t, Inr x) \<Rightarrow> (case f x of (t', r) \<Rightarrow> (t @ t', r)))"

text \<open>\<^verbatim>\<open>if (c) body\<close> with no else branch.\<close>

definition js_when :: "bool \<Rightarrow> unit run \<Rightarrow> unit run" where
  "js_when c body = (if c then body else pure ())"

text \<open>
  \<^verbatim>\<open>this.emit(name, ...args)\<close>, the method of \<^verbatim>\<open>EventEmitter\<close> that the class
  inherits: it calls the listeners subscribed to \<open>name\<close> and returns. The one event it
  treats apart is \<^verbatim>\<open>error\<close>: when no listener is subscribed to it, \<^verbatim>\<open>emit\<close>
  throws its first argument if that is an error object (anything else it wraps into a
  new error, which is not modelled). The call is recorded in both cases.
\<close>

definition emit :: "cluster \<Rightarrow> string \<Rightarrow> payload list \<Rightarrow> unit run" where
  "emit this name args =
     seq (eff (Emit name args)) (\<lambda>_.
     if name = ''error'' \<and> ''error'' \<notin> fst ` set (listeners this)
     then (case args of PError err # rest \<Rightarrow> throw err | _ \<Rightarrow> lift (Inl Unmodelled))
     else pure ())"

section \<open>The event policy\<close>

text \<open>
  \<^verbatim>\<open>p?.includes(x)\<close>: \<^verbatim>\<open>undefined\<close> when \<open>p\<close> is \<^verbatim>\<open>undefined\<close> or
  \<^verbatim>\<open>null\<close>, membership when \<open>p\<close> is an array. The source only ever asks for a
  string \<open>x\<close>, for which equality of values is JavaScript's same-value-zero.
\<close>

fun includes_opt :: "val \<Rightarrow> val \<Rightarrow> failure + val" where
  "includes_opt Undefined x = Inr Undefined"
| "includes_opt Null x = Inr Undefined"
| "includes_opt (Arr xs) x = Inr (Bool (x \<in> set xs))"
| "includes_opt p x = Inl Unmodelled"

text \<open>The condition \<^verbatim>\<open>evOpts.slot?.includes(action)\<close> of an \<^verbatim>\<open>if\<close>.\<close>

definition configured :: "heap \<Rightarrow> val \<Rightarrow> string \<Rightarrow> string \<Rightarrow> bool run" where
  "configured h evOpts slot action =
     lift (and_then (get_prop h evOpts slot) (\<lambda>p.
           and_then (includes_opt p (Str action)) (\<lambda>r. Inr (truthy r))))"

text \<open>
  \<^verbatim>\<open>
  const handler = (err: Error) => {
      if (evOpts.error?.includes("throw")) throw err;
      if (evOpts.error?.includes("log"))
          console.log("Error:", "\"" + err.message + "\"", "in child process", process.pid);
      if (evOpts.error?.includes("exit")) { process.emit("disconnect"); process.exit(); }
      this.emit("error", err, process);
  };
  \<close>
  \<open>this\<close> and \<open>h\<close> are the cluster object and the store when the error arrives,
  \<open>pid\<close> is the worker's own process id. The closure is the process's handler of
  uncaught exceptions: an exception that leaves it (the rethrown error, or the one
  \<^verbatim>\<open>emit\<close> throws) ends the process.
\<close>

fun message :: "js_error \<Rightarrow> string" where
  "message (Error m) = m"

definition handler :: "cluster \<Rightarrow> heap \<Rightarrow> val \<Rightarrow> nat \<Rightarrow> js_error \<Rightarrow> unit run" where
  "handler this h evOpts pid err =
     seq (configured h evOpts ''error'' ''throw'') (\<lambda>c1.
     seq (js_when c1 (throw err)) (\<lambda>_.
     seq (configured h evOpts ''error'' ''log'') (\<lambda>c2.
     seq (js_when c2 (eff (ConsoleLog
            [Str ''Error:'', Str ([CHR 0x22] @ message err @ [CHR 0x22]),
             Str ''in child process'', Num (int pid)]))) (\<lambda>_.
     seq (configured h evOpts ''error'' ''exit'') (\<lambda>c3.
     seq (js_when c3 (seq (eff (ProcessEmit ''disconnect'')) (\<lambda>_. process_exit))) (\<lambda>_.
     emit this ''error'' [PError err, PProcess pid]))))))"

text \<open>
  \<^verbatim>\<open>
  const exit = (...args: any[]) => {
      if (evOpts.exit?.includes("log"))
          console.log("Worker", args[0].process.pid, "exited.");
      if (evOpts.exit?.includes("exit")) process.exit();
      this.emit("exit", ...args);
  };
  \<close>
  The runtime calls it with the worker, its exit code and the signal.
\<close>

definition exit :: "cluster \<Rightarrow> heap \<Rightarrow> val \<Rightarrow> worker \<Rightarrow> val \<Rightarrow> val \<Rightarrow> unit run" where
  "exit this h evOpts w code signal =
     seq (configured h evOpts ''exit'' ''log'') (\<lambda>c1.
     seq (js_when c1 (eff (ConsoleLog
            [Str ''Worker'', Num (int (worker_pid w)), Str ''exited.'']))) (\<lambda>_.
     seq (configured h evOpts ''exit'' ''exit'') (\<lambda>c2.
     seq (js_when c2 process_exit) (\<lambda>_.
     emit this ''exit'' [PWorker w, PVal code, PVal signal]))))"

section \<open>Starting\<close>

text \<open>
  The process runtime as \<^verbatim>\<open>start()\<close> sees it: the role of this process and the
  fork primitive. \<^verbatim>\<open>cluster.fork()\<close> hands out a new worker on every call;
  the runtime numbers its workers in fork order, and the operating system picks the
  child's pid (\<open>child_pid\<close>, unknown to the program).
\<close>

record runtime =
  isPrimary :: bool
  forked :: nat
  child_pid :: "nat \<Rightarrow> nat"

definition cluster_fork :: "runtime \<Rightarrow> worker \<times> runtime" where
  "cluster_fork rt =
     (\<lparr>worker_id = Suc (forked rt), worker_pid = child_pid rt (Suc (forked rt))\<rparr>,
      rt\<lparr>forked := Suc (forked rt)\<rparr>)"

text \<open>The workers that \<open>k\<close> calls of \<^verbatim>\<open>cluster.fork()\<close> in a row hand out.\<close>

fun forks :: "nat \<Rightarrow> runtime \<Rightarrow> worker list" where
  "forks 0 rt = []"
| "forks (Suc k) rt = (let (w, rt') = cluster_fork rt in w # forks k rt')"

text \<open>
  \<^verbatim>\<open>
  private fork() {
      const cw = cluster.fork();
      this.emit("start", cw);
      cw.on("disconnect", () => cluster.disconnect());
  }
  \<close>
\<close>

definition fork :: "cluster \<Rightarrow> runtime \<Rightarrow> unit run \<times> runtime" where
  "fork this rt =
     (let (cw, rt') = cluster_fork rt
      in (seq (eff (Fork cw)) (\<lambda>_.
          seq (emit this ''start'' [PWorker cw]) (\<lambda>_.
          eff (WorkerOn cw ''disconnect''))), rt'))"

text \<open>
  \<^verbatim>\<open>for (let i = 0; i < this.instances; ++i) this.fork();\<close>, from \<open>i\<close> on, after
  the calls \<open>acc\<close>. A fork that does not return ends the loop.
\<close>

function fork_loop ::
  "cluster \<Rightarrow> int \<Rightarrow> int \<Rightarrow> runtime \<Rightarrow> effect list \<Rightarrow> unit run \<times> runtime" where
  "fork_loop this i n rt acc =
     (if i < n
      then (case fork this rt of
              ((t, Inr u), rt') \<Rightarrow> fork_loop this (i + 1) n rt' (acc @ t)
            | ((t, Inl s), rt') \<Rightarrow> ((acc @ t, Inl s), rt'))
      else ((acc, Inr ()), rt))"
  by pat_completeness auto
termination
  by (relation "measure (\<lambda>(this, i, n, rt, acc). nat (n - i))") auto

declare fork_loop.simps [simp del]

text \<open>
  \<^verbatim>\<open>
  start() {
      const opts = this.options;
      const listenOpts = opts.listen;
      const evOpts = opts.events;
      ...
      if (cluster.isPrimary) {
          for (let i = 0; i < this.instances; ++i) this.fork();
          cluster.on("exit", exit);
      } else {
          process.on("uncaughtException", handler);
          (opts.isHttps ? https : http)
              .createServer(opts.advanced, this.app)
              .listen(listenOpts.port || 8080, listenOpts.hostname,
                      listenOpts.backlog, listenOpts.listeningListener);
      }
  }
  \<close>
  The two subscriptions are recorded by the event they subscribe to; the closures they
  install are \<open>exit\<close> and \<open>handler\<close> above, over the \<open>evOpts\<close> read here.
\<close>

definition start :: "cluster \<Rightarrow> heap \<Rightarrow> runtime \<Rightarrow> unit run" where
  "start this h rt =
     (let opts = options this in
      seq (lift (get_prop h opts ''listen'')) (\<lambda>listenOpts.
      seq (lift (get_prop h opts ''events'')) (\<lambda>evOpts.
      if isPrimary rt then
        seq (case instances this of
               Num n \<Rightarrow> fst (fork_loop this 0 n rt [])
             | _ \<Rightarrow> lift (Inl Unmodelled)) (\<lambda>_.
        eff (ClusterOn ''exit''))
      else
        seq (eff (ProcessOn ''uncaughtException'')) (\<lambda>_.
        seq (lift (get_prop h opts ''isHttps'')) (\<lambda>isHttps.
        seq (lift (get_prop h opts ''advanced'')) (\<lambda>advanced.
        seq (eff (CreateServer (truthy isHttps) advanced (app this))) (\<lambda>_.
        seq (lift (get_prop h listenOpts ''port'')) (\<lambda>port.
        seq (lift (get_prop h listenOpts ''hostname'')) (\<lambda>hostname.
        seq (lift (get_prop h listenOpts ''backlog'')) (\<lambda>backlog.
        seq (lift (get_prop h listenOpts ''listeningListener'')) (\<lambda>listeningListener.
        eff (Listen (js_or port (Num 8080)) hostname backlog listeningListener))))))))))))"

section \<open>Reading a run\<close>

text \<open>A call of \<^verbatim>\<open>this.emit\<close>: a notification to the subscribers of the cluster.\<close>

fun is_Emit :: "effect \<Rightarrow> bool" where
  "is_Emit (Emit name args) = True"
| "is_Emit e = False"

section \<open>Basic facts\<close>

lemma and_then_Inr [simp]: "and_then (Inr x) f = f x"
  by (simp add: and_then_def)

lemma and_then_Inl [simp]: "and_then (Inl e) f = Inl e"
  by (simp add: and_then_def)

lemma lift_Inr [simp]: "lift (Inr x) = ([], Inr x)"
  by (simp add: lift_def)

lemma lift_Inl [simp]: "lift (Inl f) = ([], Inl (Failed f))"
  by (simp add: lift_def)

lemma seq_Inr [simp]: "seq (t, Inr x) f = (t @ fst (f x), snd (f x))"
  by (simp add: seq_def split: prod.splits)

lemma seq_Inl [simp]: "seq (t, Inl s) f = (t, Inl s)"
  by (simp add: seq_def)

subsection \<open>Emitting\<close>

lemma emit_other [simp]:
  "name \<noteq> ''error'' \<Longrightarrow> emit this name args = ([Emit name args], Inr ())"
  by (simp add: emit_def eff_def pure_def)

lemma emit_error:
  "emit this ''error'' (PError err # rest) =
     ([Emit ''error'' (PError err # rest)],
      if ''error'' \<in> fst ` set (listeners this) then Inr () else Inl (Failed (Thrown err)))"
  by (simp add: emit_def eff_def pure_def throw_def)

subsection \<open>The two handlers on a normalized policy\<close>

text \<open>
  After normalization a slot of the events object holds an array or is not there; a
  slot that is not there lists nothing.
\<close>

lemma configured_policy:
  "get_prop h evOpts slot = Inr (Arr xs) \<or> get_prop h evOpts slot = Inr Undefined \<and> xs = [] \<Longrightarrow>
   configured h evOpts slot action = ([], Inr (Str action \<in> set xs))"
  by (auto simp: configured_def)

lemma exit_run:
  assumes "get_prop h evOpts ''exit'' = Inr (Arr xs)
           \<or> get_prop h evOpts ''exit'' = Inr Undefined \<and> xs = []"
  shows "exit this h evOpts w code signal =
    ((if Str ''log'' \<in> set xs
      then [ConsoleLog [Str ''Worker'', Num (int (worker_pid w)), Str ''exited.'']] else [])
     @ (if Str ''exit'' \<in> set xs then [ProcessExit]
        else [Emit ''exit'' [PWorker w, PVal code, PVal signal]]),
     if Str ''exit'' \<in> set xs then Inl Exited else Inr ())"
  by (simp add: exit_def configured_policy [OF assms] js_when_def eff_def pure_def process_exit_def)

lemma handler_run:
  assumes "get_prop h evOpts ''error'' = Inr (Arr xs)
           \<or> get_prop h evOpts ''error'' = Inr Undefined \<and> xs = []"
  shows "handler this h evOpts pid err =
    (if Str ''throw'' \<in> set xs then ([], Inl (Failed (Thrown err)))
     else
      ((if Str ''log'' \<in> set xs
        then [ConsoleLog [Str ''Error:'', Str ([CHR 0x22] @ message err @ [CHR 0x22]),
                          Str ''in child process'', Num (int pid)]] else [])
       @ (if Str ''exit'' \<in> set xs then [ProcessEmit ''disconnect'', ProcessExit]
          else [Emit ''error'' [PError err, PProcess pid]]),
       if Str ''exit'' \<in> set xs then Inl Exited
       else if ''error'' \<in> fst ` set (listeners this) then Inr ()
       else Inl (Failed (Thrown err))))"
  by (simp add: handler_def configured_policy [OF assms] js_when_def eff_def pure_def
        process_exit_def throw_def emit_error)

subsection \<open>The fork loop\<close>

lemma fork_run:
  "fork this rt =
     (([Fork (fst (cluster_fork rt)), Emit ''start'' [PWorker (fst (cluster_fork rt))],
        WorkerOn (fst (cluster_fork rt)) ''disconnect''], Inr ()),
      snd (cluster_fork rt))"
  by (simp add: fork_def eff_def case_prod_unfold Let_def)

lemma fork_loop_stop: "\<not> i < n \<Longrightarrow> fork_loop this i n rt acc = ((acc, Inr ()), rt)"
  by (subst fork_loop.simps) (simp only: if_False)

lemma fork_loop_step:
  "i < n \<Longrightarrow>
   fork_loop this i n rt acc =
     fork_loop this (i + 1) n (snd (cluster_fork rt))
       (acc @ [Fork (fst (cluster_fork rt)), Emit ''start'' [PWorker (fst (cluster_fork rt))],
               WorkerOn (fst (cluster_fork rt)) ''disconnect''])"
  by (subst fork_loop.simps) (simp add: fork_run)

lemma fork_loop_trace:
  "fst (fork_loop this i n rt acc) =
     (acc @ concat (map (\<lambda>w. [Fork w, Emit ''start'' [PWorker w], WorkerOn w ''disconnect''])
                        (forks (nat (n - i)) rt)), Inr ())"
proof (induction "nat (n - i)" arbitrary: i rt acc)
  case 0
  then have "\<not> i < n" by simp
  then show ?case using 0 by (simp add: fork_loop_stop)
next
  case (Suc m)
  then have lt: "i < n" and m: "m = nat (n - (i + 1))" by simp_all
  have n: "nat (n - i) = Suc (nat (n - (i + 1)))" using lt by simp
  show ?case
    unfolding fork_loop_step [OF lt] Suc.hyps(1) [OF m] n
    by (simp add: case_prod_unfold Let_def)
qed

lemma forks_ids: "w \<in> set (forks k rt) \<Longrightarrow> forked rt < worker_id w"
proof (induction k arbitrary: rt)
  case 0
  then show ?case by simp
next
  case (Suc k)
  then show ?case
    by (fastforce simp: cluster_fork_def dest: Suc.IH)
qed

lemma distinct_forks: "distinct (forks k rt)"
proof (induction k arbitrary: rt)
  case 0
  show ?case by simp
next
  case (Suc k)
  have "\<lparr>worker_id = Suc (forked rt), worker_pid = child_pid rt (Suc (forked rt))\<rparr>
          \<notin> set (forks k (rt\<lparr>forked := Suc (forked rt)\<rparr>))"
    using forks_ids [of _ k "rt\<lparr>forked := Suc (forked rt)\<rparr>"] by fastforce
  then show ?case
    using Suc.IH by (simp add: cluster_fork_def)
qed

lemma length_forks: "length (forks k rt) = k"
  by (induction k arbitrary: rt) (simp_all add: case_prod_unfold Let_def)

subsection \<open>Starting a worker, and the defaults of the constructor\<close>

lemma start_worker:
  assumes "\<not> isPrimary rt" and "options this = Ref a" and "a < length h"
    and "own (h ! a) ''listen'' = Ref l" and "l < length h"
  shows "start this h rt =
    ([ProcessOn ''uncaughtException'',
      CreateServer (truthy (own (h ! a) ''isHttps'')) (own (h ! a) ''advanced'') (app this),
      Listen (js_or (own (h ! l) ''port'') (Num 8080)) (own (h ! l) ''hostname'')
             (own (h ! l) ''backlog'') (own (h ! l) ''listeningListener'')], Inr ())"
  using assms by (simp add: start_def eff_def)

lemma default_field_Ref:
  "a < length h \<Longrightarrow>
   default_field (Ref a) k h =
     Inr (if truthy (own (h ! a) k) then h
          else (h @ [[]])[a := AList.update k (Ref (length h)) (h ! a)])"
  by (simp add: default_field_def alloc_def nth_append)

subsection \<open>Normalization, step by step\<close>

lemma own_update: "own (AList.update k v ob) k' = (if k' = k then v else own ob k')"
  by (simp add: own_def update_conv')

lemma wrap_events_fixed:
  assumes "a < length h" and "e < length h" and "own (h ! a) ''events'' = Ref e"
    and "\<forall>k \<in> set keys. isArray (own (h ! e) k)"
  shows "wrap_events (Ref a) keys h = Inr h"
  using assms by (induction keys) simp_all

lemma wrap_events_run:
  assumes "a < length h" and "e < length h" and "a \<noteq> e"
    and "own (h ! a) ''events'' = Ref e"
  shows "\<exists>h'. wrap_events (Ref a) keys h = Inr h' \<and> length h' = length h
           \<and> (\<forall>i. i \<noteq> e \<longrightarrow> h' ! i = h ! i)
           \<and> (\<forall>k. map_of (h' ! e) k =
                 (if k \<in> set keys
                  then Some (if isArray (own (h ! e) k) then own (h ! e) k
                             else Arr [own (h ! e) k])
                  else map_of (h ! e) k))"
  using assms
proof (induction keys arbitrary: h)
  case Nil
  then show ?case by simp
next
  case (Cons key keys)
  let ?v = "own (h ! e) key"
  show ?case
  proof (cases "isArray ?v")
    case True
    then obtain xs where xs: "?v = Arr xs" by (cases ?v) simp_all
    then have some: "map_of (h ! e) key = Some (Arr xs)"
      by (auto simp: own_def split: option.splits)
    from Cons.IH [OF Cons.prems] obtain h' where
      h': "wrap_events (Ref a) keys h = Inr h'" "length h' = length h"
          "\<forall>i. i \<noteq> e \<longrightarrow> h' ! i = h ! i"
          "\<forall>k. map_of (h' ! e) k =
                 (if k \<in> set keys
                  then Some (if isArray (own (h ! e) k) then own (h ! e) k
                             else Arr [own (h ! e) k])
                  else map_of (h ! e) k)"
      by blast
    have "wrap_events (Ref a) (key # keys) h = Inr h'"
      using Cons.prems True h'(1) by simp
    moreover have "\<forall>k. map_of (h' ! e) k =
                 (if k \<in> set (key # keys)
                  then Some (if isArray (own (h ! e) k) then own (h ! e) k
                             else Arr [own (h ! e) k])
                  else map_of (h ! e) k)"
      using h'(4) some xs by auto
    ultimately show ?thesis using h'(2,3) by blast
  next
    case False
    let ?h1 = "h[e := AList.update key (Arr [?v]) (h ! e)]"
    have p: "a < length ?h1" "e < length ?h1" "a \<noteq> e" "own (?h1 ! a) ''events'' = Ref e"
      using Cons.prems by simp_all
    from Cons.IH [OF p] obtain h' where
      h': "wrap_events (Ref a) keys ?h1 = Inr h'" "length h' = length ?h1"
          "\<forall>i. i \<noteq> e \<longrightarrow> h' ! i = ?h1 ! i"
          "\<forall>k. map_of (h' ! e) k =
                 (if k \<in> set keys
                  then Some (if isArray (own (?h1 ! e) k) then own (?h1 ! e) k
                             else Arr [own (?h1 ! e) k])
                  else map_of (?h1 ! e) k)"
      by blast
    have "wrap_events (Ref a) (key # keys) h = Inr h'"
      using Cons.prems False h'(1) by simp
    moreover have "\<forall>k. map_of (h' ! e) k =
                 (if k \<in> set (key # keys)
                  then Some (if isArray (own (h ! e) k) then own (h ! e) k
                             else Arr [own (h ! e) k])
                  else map_of (h ! e) k)"
      using h'(4) False Cons.prems(2) by (auto simp: own_update update_conv')
    moreover have "\<forall>i. i \<noteq> e \<longrightarrow> h' ! i = h ! i"
      using h'(3) by simp
    ultimately show ?thesis using h'(2) by auto
  qed
qed


lemma defaults_run:
  assumes "a < length h"
    and "own (h ! a) ''events'' = Ref e \<and> e < length h \<and> e \<noteq> a
         \<or> \<not> truthy (own (h ! a) ''events'') \<and> e = length h"
  shows "\<exists>h2 h3. default_field (Ref a) ''events'' h = Inr h2
      \<and> default_field (Ref a) ''listen'' h2 = Inr h3
      \<and> length h \<le> length h3 \<and> a < length h3 \<and> e < length h3 \<and> a \<noteq> e
      \<and> (\<forall>i. i < length h \<longrightarrow> i \<noteq> a \<longrightarrow> h3 ! i = h ! i)
      \<and> (\<forall>k. k \<noteq> ''events'' \<longrightarrow> k \<noteq> ''listen'' \<longrightarrow> map_of (h3 ! a) k = map_of (h ! a) k)
      \<and> own (h3 ! a) ''events'' = Ref e
      \<and> truthy (own (h3 ! a) ''listen'')
      \<and> (truthy (own (h ! a) ''listen'') \<longrightarrow> own (h3 ! a) ''listen'' = own (h ! a) ''listen'')
      \<and> (e = length h \<longrightarrow> h3 ! e = [])
      \<and> length h3 = length h + (if e < length h then 0 else 1)
                               + (if truthy (own (h ! a) ''listen'') then 0 else 1)
      \<and> (\<not> truthy (own (h ! a) ''listen'') \<longrightarrow>
            own (h3 ! a) ''listen'' = Ref (if e < length h then length h else Suc (length h)) \<and> h3 ! (if e < length h then length h else Suc (length h)) = [])"
  using assms
  by (auto simp: default_field_Ref own_update nth_append update_conv' nth_list_update)


lemma normalizeOptions_run:
  assumes "options cls = Ref a" and "a < length h"
    and "own (h ! a) ''events'' = Ref e \<and> e < length h \<and> e \<noteq> a
         \<or> \<not> truthy (own (h ! a) ''events'') \<and> e = length h"
  shows "\<exists>h'. normalizeOptions ncpus cls h =
            Inr (cls\<lparr>instances := (if truthy (instances cls) then instances cls
                                    else Num (int ncpus))\<rparr>, h')
      \<and> length h \<le> length h' \<and> a < length h' \<and> e < length h' \<and> a \<noteq> e
      \<and> (\<forall>i. i < length h \<longrightarrow> i \<noteq> a \<longrightarrow> i \<noteq> e \<longrightarrow> h' ! i = h ! i)
      \<and> (\<forall>k. k \<noteq> ''events'' \<longrightarrow> k \<noteq> ''listen'' \<longrightarrow> map_of (h' ! a) k = map_of (h ! a) k)
      \<and> own (h' ! a) ''events'' = Ref e
      \<and> truthy (own (h' ! a) ''listen'')
      \<and> (truthy (own (h ! a) ''listen'') \<longrightarrow> own (h' ! a) ''listen'' = own (h ! a) ''listen'')
      \<and> (\<forall>k. map_of (h' ! e) k =
               (if e < length h
                then map_option (\<lambda>v. if isArray v then v else Arr [v]) (map_of (h ! e) k)
                else None))
      \<and> (e = length h \<longrightarrow> h' ! e = [])
      \<and> length h' = length h + (if e < length h then 0 else 1)
                               + (if truthy (own (h ! a) ''listen'') then 0 else 1)
      \<and> (\<not> truthy (own (h ! a) ''listen'') \<longrightarrow>
            own (h' ! a) ''listen'' = Ref (if e < length h then length h else Suc (length h)) \<and> h' ! (if e < length h then length h else Suc (length h)) = [])"
proof -
  from defaults_run [OF assms(2,3)] obtain h2 h3 where
    d: "default_field (Ref a) ''events'' h = Inr h2"
       "default_field (Ref a) ''listen'' h2 = Inr h3"
       "length h \<le> length h3" "a < length h3" "e < length h3" "a \<noteq> e"
       "\<forall>i. i < length h \<longrightarrow> i \<noteq> a \<longrightarrow> h3 ! i = h ! i"
       "\<forall>k. k \<noteq> ''events'' \<longrightarrow> k \<noteq> ''listen'' \<longrightarrow> map_of (h3 ! a) k = map_of (h ! a) k"
       "own (h3 ! a) ''events'' = Ref e"
       "truthy (own (h3 ! a) ''listen'')"
       "truthy (own (h ! a) ''listen'') \<longrightarrow> own (h3 ! a) ''listen'' = own (h ! a) ''listen''"
       "e = length h \<longrightarrow> h3 ! e = []"
       "length h3 = length h + (if e < length h then 0 else 1)
                               + (if truthy (own (h ! a) ''listen'') then 0 else 1)"
       "\<not> truthy (own (h ! a) ''listen'') \<longrightarrow>
            own (h3 ! a) ''listen'' = Ref (if e < length h then length h else Suc (length h)) \<and> h3 ! (if e < length h then length h else Suc (length h)) = []"
    by (elim exE conjE) (rule that)
  from wrap_events_run [OF d(4,5,6,9), of "map fst (h3 ! e)"] obtain h' where
    w: "wrap_events (Ref a) (map fst (h3 ! e)) h3 = Inr h'" "length h' = length h3"
       "\<forall>i. i \<noteq> e \<longrightarrow> h' ! i = h3 ! i"
       "\<forall>k. map_of (h' ! e) k =
                 (if k \<in> set (map fst (h3 ! e))
                  then Some (if isArray (own (h3 ! e) k) then own (h3 ! e) k
                             else Arr [own (h3 ! e) k])
                  else map_of (h3 ! e) k)"
    by blast
  have run: "normalizeOptions ncpus cls h =
            Inr (cls\<lparr>instances := (if truthy (instances cls) then instances cls
                                    else Num (int ncpus))\<rparr>, h')"
    using assms(1) d(1,2,4,5,9) w(1) by (simp add: normalizeOptions_def)
  have e3: "e < length h \<Longrightarrow> h3 ! e = h ! e"
    using d(6,7) by simp
  have entries: "map_of (h' ! e) k =
               (if e < length h
                then map_option (\<lambda>v. if isArray v then v else Arr [v]) (map_of (h ! e) k)
                else None)" for k
  proof (cases "e < length h")
    case True
    show ?thesis
    proof (cases "map_of (h ! e) k")
      case None
      then have "k \<notin> set (map fst (h ! e))"
        by (simp add: map_of_eq_None_iff)
      then show ?thesis using w(4) e3 [OF True] True None by simp
    next
      case (Some v)
      then have "k \<in> set (map fst (h ! e))"
        by (metis map_of_eq_None_iff option.distinct(1) set_map)
      then show ?thesis using w(4) e3 [OF True] True Some by (simp add: own_def)
    qed
  next
    case False
    then have "h3 ! e = []" using assms(3) d(12) by auto
    then show ?thesis using w(4) False by simp
  qed
  have fresh_events: "e = length h \<longrightarrow> h' ! e = []"
  proof
    assume "e = length h"
    then have "h3 ! e = []" using d(12) by simp
    then have "wrap_events (Ref a) (map fst (h3 ! e)) h3 = Inr h3" by simp
    then have "h' = h3" using w(1) by simp
    then show "h' ! e = []" using \<open>h3 ! e = []\<close> by simp
  qed
  have le: "(if e < length h then length h else Suc (length h)) \<noteq> e"
    using assms(3) by auto
  have a3: "h' ! a = h3 ! a"
    using w(3) d(6) by simp
  have fresh_listen: "\<not> truthy (own (h ! a) ''listen'') \<longrightarrow>
            own (h' ! a) ''listen'' = Ref (if e < length h then length h else Suc (length h)) \<and> h' ! (if e < length h then length h else Suc (length h)) = []"
    using d(14) w(3) le a3 by simp
  have len: "length h' = length h + (if e < length h then 0 else 1)
                               + (if truthy (own (h ! a) ''listen'') then 0 else 1)"
    using d(13) w(2) by simp
  have frame: "\<forall>i. i < length h \<longrightarrow> i \<noteq> a \<longrightarrow> i \<noteq> e \<longrightarrow> h' ! i = h ! i"
    using d(7) w(3) by simp
  have props: "\<forall>k. k \<noteq> ''events'' \<longrightarrow> k \<noteq> ''listen'' \<longrightarrow> map_of (h' ! a) k = map_of (h ! a) k"
    using d(8) a3 by simp
  have ev: "own (h' ! a) ''events'' = Ref e" "truthy (own (h' ! a) ''listen'')"
       "truthy (own (h ! a) ''listen'') \<longrightarrow> own (h' ! a) ''listen'' = own (h ! a) ''listen''"
    using d(9,10,11) a3 by simp_all
  have bounds: "length h \<le> length h'" "a < length h'" "e < length h'" "a \<noteq> e"
    using d(3,4,5,6) w(2) by simp_all
  have ent: "\<forall>k. map_of (h' ! e) k =
               (if e < length h
                then map_option (\<lambda>v. if isArray v then v else Arr [v]) (map_of (h ! e) k)
                else None)"
    using entries by blast
  show ?thesis
    by (rule exI [of _ h'])
       (intro conjI run bounds frame props ev ent fresh_events len fresh_listen)
qed


lemma normalizeOptions_fixed:
  assumes "options cls = Ref a" and "a < length h" and "own (h ! a) ''events'' = Ref e"
    and "e < length h" and "truthy (own (h ! a) ''listen'')"
    and "\<forall>k v. map_of (h ! e) k = Some v \<longrightarrow> isArray v"
  shows "normalizeOptions ncpus cls h =
           Inr (cls\<lparr>instances := (if truthy (instances cls) then instances cls
                                   else Num (int ncpus))\<rparr>, h)"
proof -
  have "\<forall>k \<in> set (map fst (h ! e)). isArray (own (h ! e) k)"
  proof
    fix k assume "k \<in> set (map fst (h ! e))"
    then obtain v where "map_of (h ! e) k = Some v"
      by (metis map_of_eq_None_iff not_Some_eq set_map)
    then show "isArray (own (h ! e) k)"
      using assms(6) by (simp add: own_def)
  qed
  then have "wrap_events (Ref a) (map fst (h ! e)) h = Inr h"
    using wrap_events_fixed [OF assms(2,4,3)] by simp
  then show ?thesis
    using assms(1-5) by (simp add: normalizeOptions_def default_field_Ref)
qed

lemma wrapped_isArray:
  "map_option (\<lambda>v. if isArray v then v else Arr [v]) m = Some v \<Longrightarrow> isArray v"
  by (cases m) (auto split: if_splits)

subsection \<open>Two constructions\<close>

lemma new_Cluster_count:
  "new_Cluster ncpus [Fun f, Num 4] h =
     Inr (\<lparr>options = Ref (length h), app = Fun f, instances = Num 4, listeners = []\<rparr>,
          h @ [[(''events'', Ref (Suc (length h))), (''listen'', Ref (Suc (Suc (length h))))],
               [], []])"
  by (simp add: new_Cluster_def arg_def normalizeOptions_def alloc_def default_field_Ref
        own_def nth_append list_update_append)

lemma new_Cluster_port:
  assumes "a < length h" and "l < length h"
    and "h ! a = [(''listen'', Ref l)]" and "h ! l = [(''port'', Num 9000)]"
  shows "new_Cluster ncpus [Fun f, Ref a] h =
     Inr (\<lparr>options = Ref a, app = Fun f, instances = Num (int ncpus), listeners = []\<rparr>,
          h[a := [(''listen'', Ref l), (''events'', Ref (length h))]] @ [[]])"
  using assms
  by (simp add: new_Cluster_def arg_def normalizeOptions_def alloc_def default_field_Ref
        own_def nth_append list_update_append)

text \<open>
  How the constructor reads its arguments, for every value of the second and third:
  a falsy second argument (\<^verbatim>\<open>0\<close>, \<^verbatim>\<open>undefined\<close>) skips the whole block, the
  third argument with it.
\<close>

lemma new_Cluster_arguments:
  "new_Cluster ncpus [Fun f, nextArg, lastArg] h =
     normalizeOptions ncpus
       (if \<not> truthy nextArg then \<lparr>options = Undefined, app = Fun f, instances = Undefined, listeners = []\<rparr>
        else if truthy lastArg then \<lparr>options = lastArg, app = Fun f, instances = nextArg, listeners = []\<rparr>
        else if typeof nextArg = ''number''
             then \<lparr>options = Undefined, app = Fun f, instances = nextArg, listeners = []\<rparr>
             else \<lparr>options = nextArg, app = Fun f, instances = Undefined, listeners = []\<rparr>) h"
  by (simp add: new_Cluster_def arg_def)

section \<open>The claims\<close>

text \<open>
  C1. As stated (each listed action runs in the order it is listed) the claim fails:
  the handlers test membership, in a fixed order. What holds, for a policy that is an
  array or is not set (which lists nothing): the actions are additive and each runs
  at most once, in the order of the code, whatever the order and the repetitions in
  the array. For an exit event: the log line if
  \<^verbatim>\<open>log\<close> is listed, then the exit of the coordinator if \<^verbatim>\<open>exit\<close> is listed. For an
  error event: if \<^verbatim>\<open>throw\<close> is listed the error is rethrown and nothing else
  happens; otherwise the log line if \<^verbatim>\<open>log\<close> is listed, then the disconnect and the
  exit of the worker if \<^verbatim>\<open>exit\<close> is listed.
\<close>

theorem policy_actions_fixed_order:
  assumes "get_prop h evOpts ''exit'' = Inr (Arr xs)
           \<or> get_prop h evOpts ''exit'' = Inr Undefined \<and> xs = []"
    and "get_prop h evOpts ''error'' = Inr (Arr ys)
           \<or> get_prop h evOpts ''error'' = Inr Undefined \<and> ys = []"
  shows "exit this h evOpts w code signal =
      ((if Str ''log'' \<in> set xs
        then [ConsoleLog [Str ''Worker'', Num (int (worker_pid w)), Str ''exited.'']] else [])
       @ (if Str ''exit'' \<in> set xs then [ProcessExit]
          else [Emit ''exit'' [PWorker w, PVal code, PVal signal]]),
       if Str ''exit'' \<in> set xs then Inl Exited else Inr ())
    \<and> handler this h evOpts pid err =
      (if Str ''throw'' \<in> set ys then ([], Inl (Failed (Thrown err)))
       else
        ((if Str ''log'' \<in> set ys
          then [ConsoleLog [Str ''Error:'', Str ([CHR 0x22] @ message err @ [CHR 0x22]),
                            Str ''in child process'', Num (int pid)]] else [])
         @ (if Str ''exit'' \<in> set ys then [ProcessEmit ''disconnect'', ProcessExit]
            else [Emit ''error'' [PError err, PProcess pid]]),
         if Str ''exit'' \<in> set ys then Inl Exited
         else if ''error'' \<in> fst ` set (listeners this) then Inr ()
         else Inl (Failed (Thrown err))))"
  using exit_run [OF assms(1)] handler_run [OF assms(2)] by simp

theorem policy_actions_fixed_order_witness:
  "exit \<lparr>options = Ref 0, app = Fun 0, instances = Num 2, listeners = []\<rparr>
        [[(''exit'', Arr [Str ''log'', Str ''exit'']), (''error'', Arr [Str ''exit'', Str ''log''])]]
        (Ref 0) \<lparr>worker_id = 1, worker_pid = 101\<rparr> (Num 0) Null =
     ([ConsoleLog [Str ''Worker'', Num 101, Str ''exited.''], ProcessExit], Inl Exited)
   \<and> handler \<lparr>options = Ref 0, app = Fun 0, instances = Num 2, listeners = []\<rparr>
        [[(''exit'', Arr [Str ''log'', Str ''exit'']), (''error'', Arr [Str ''exit'', Str ''log''])]]
        (Ref 0) 77 (Error ''boom'') =
     ([ConsoleLog [Str ''Error:'', Str ([CHR 0x22] @ ''boom'' @ [CHR 0x22]),
                   Str ''in child process'', Num 77],
       ProcessEmit ''disconnect'', ProcessExit], Inl Exited)"
  using policy_actions_fixed_order
    [of "[[(''exit'', Arr [Str ''log'', Str ''exit'']), (''error'', Arr [Str ''exit'', Str ''log''])]]"
        "Ref 0" "[Str ''log'', Str ''exit'']" "[Str ''exit'', Str ''log'']"
        "\<lparr>options = Ref 0, app = Fun 0, instances = Num 2, listeners = []\<rparr>" "\<lparr>worker_id = 1, worker_pid = 101\<rparr>" "Num 0" Null 77 "Error ''boom''"]
  by (simp add: own_def)

text \<open>
  C1, the exit policy \<^verbatim>\<open>[exit, log]\<close>: the claim has the coordinator terminate
  before anything is logged. The code writes the log line first and exits after it,
  exactly as it does for \<^verbatim>\<open>[log, exit]\<close>.
\<close>

theorem exit_before_log_counterexample:
  "exit \<lparr>options = Ref 0, app = Fun 0, instances = Num 2, listeners = []\<rparr> [[(''exit'', Arr [Str ''exit'', Str ''log''])]] (Ref 0) \<lparr>worker_id = 1, worker_pid = 101\<rparr> (Num 0) Null =
     ([ConsoleLog [Str ''Worker'', Num 101, Str ''exited.''], ProcessExit], Inl Exited)
   \<and> exit \<lparr>options = Ref 0, app = Fun 0, instances = Num 2, listeners = []\<rparr> [[(''exit'', Arr [Str ''exit'', Str ''log''])]] (Ref 0) \<lparr>worker_id = 1, worker_pid = 101\<rparr> (Num 0) Null =
     exit \<lparr>options = Ref 0, app = Fun 0, instances = Num 2, listeners = []\<rparr> [[(''exit'', Arr [Str ''log'', Str ''exit''])]] (Ref 0) \<lparr>worker_id = 1, worker_pid = 101\<rparr> (Num 0) Null"
  by (simp add: exit_def configured_def own_def js_when_def eff_def pure_def process_exit_def)

text \<open>
  C2. As stated (the notification always fires, and before the coordinator exits) the
  claim fails: \<^verbatim>\<open>process.exit()\<close> and \<^verbatim>\<open>throw err\<close> stand before the
  \<^verbatim>\<open>this.emit\<close>, and neither returns. What holds, for a policy that is an array
  or is not set (which lists nothing): the notification is emitted exactly when the
  policy lists neither \<^verbatim>\<open>exit\<close> nor (for an error) \<^verbatim>\<open>throw\<close>; then it is emitted
  once and it is the last call of the handler. When \<^verbatim>\<open>exit\<close> is listed the last call
  is the exit of the process, and no notification is emitted; when \<^verbatim>\<open>throw\<close> is
  listed for an error the handler makes no call at all. (After its last call the exit
  handler returns; the error handler returns if a listener is subscribed to
  \<^verbatim>\<open>error\<close>, and otherwise the emit throws the error.)
\<close>

theorem notification_last_unless_exit_or_throw:
  assumes "get_prop h evOpts ''exit'' = Inr (Arr xs)
           \<or> get_prop h evOpts ''exit'' = Inr Undefined \<and> xs = []"
    and "get_prop h evOpts ''error'' = Inr (Arr ys)
           \<or> get_prop h evOpts ''error'' = Inr Undefined \<and> ys = []"
  shows "(let r = exit this h evOpts w code signal in
          (filter is_Emit (fst r), last (fst r), snd r) =
            (if Str ''exit'' \<in> set xs then ([], ProcessExit, Inl Exited)
             else ([Emit ''exit'' [PWorker w, PVal code, PVal signal]],
                   Emit ''exit'' [PWorker w, PVal code, PVal signal], Inr ())))
    \<and> (let r = handler this h evOpts pid err in
          if Str ''throw'' \<in> set ys then r = ([], Inl (Failed (Thrown err)))
          else (filter is_Emit (fst r), last (fst r), snd r) =
            (if Str ''exit'' \<in> set ys then ([], ProcessExit, Inl Exited)
             else ([Emit ''error'' [PError err, PProcess pid]],
                   Emit ''error'' [PError err, PProcess pid],
                   if ''error'' \<in> fst ` set (listeners this) then Inr ()
                   else Inl (Failed (Thrown err)))))"
  using exit_run [OF assms(1)] handler_run [OF assms(2)] by simp

theorem notification_last_unless_exit_or_throw_witness:
  "(let r = exit \<lparr>options = Ref 0, app = Fun 0, instances = Num 2, listeners = []\<rparr> [[(''exit'', Arr [Str ''log'']), (''error'', Arr [Str ''throw''])]]
                 (Ref 0) \<lparr>worker_id = 1, worker_pid = 101\<rparr> (Num 0) Null in
      (filter is_Emit (fst r), last (fst r), snd r) =
        ([Emit ''exit'' [PWorker \<lparr>worker_id = 1, worker_pid = 101\<rparr>, PVal (Num 0), PVal Null]],
         Emit ''exit'' [PWorker \<lparr>worker_id = 1, worker_pid = 101\<rparr>, PVal (Num 0), PVal Null],
         Inr ()))
   \<and> handler \<lparr>options = Ref 0, app = Fun 0, instances = Num 2, listeners = []\<rparr> [[(''exit'', Arr [Str ''log'']), (''error'', Arr [Str ''throw''])]]
              (Ref 0) 77 (Error ''boom'') = ([], Inl (Failed (Thrown (Error ''boom''))))"
  using notification_last_unless_exit_or_throw
    [of "[[(''exit'', Arr [Str ''log'']), (''error'', Arr [Str ''throw''])]]"
        "Ref 0" "[Str ''log'']" "[Str ''throw'']"
        "\<lparr>options = Ref 0, app = Fun 0, instances = Num 2, listeners = []\<rparr>" "\<lparr>worker_id = 1, worker_pid = 101\<rparr>" "Num 0" Null 77 "Error ''boom''"]
  by (simp add: own_def Let_def)

text \<open>
  C2, the exit policy \<^verbatim>\<open>[log, exit]\<close>: the claim has the \<^verbatim>\<open>exit\<close> notification fire
  before the coordinator terminates. The code logs and exits; no notification is among
  its calls.
\<close>

theorem exit_notification_counterexample:
  "exit \<lparr>options = Ref 0, app = Fun 0, instances = Num 2, listeners = []\<rparr> [[(''exit'', Arr [Str ''log'', Str ''exit''])]] (Ref 0) \<lparr>worker_id = 1, worker_pid = 101\<rparr> (Num 0) Null =
     ([ConsoleLog [Str ''Worker'', Num 101, Str ''exited.''], ProcessExit], Inl Exited)
   \<and> filter is_Emit
        (fst (exit \<lparr>options = Ref 0, app = Fun 0, instances = Num 2, listeners = []\<rparr> [[(''exit'', Arr [Str ''log'', Str ''exit''])]] (Ref 0) \<lparr>worker_id = 1, worker_pid = 101\<rparr> (Num 0) Null))
       = []"
  by (simp add: exit_def configured_def own_def js_when_def eff_def pure_def process_exit_def)

text \<open>
  C3. As stated (one notification and no termination, whoever listens) the claim
  fails: the cluster is an \<^verbatim>\<open>EventEmitter\<close>, and its \<^verbatim>\<open>emit\<close> of an \<^verbatim>\<open>error\<close>
  event throws the error when no listener is subscribed to \<^verbatim>\<open>error\<close>; thrown out
  of the handler of uncaught exceptions, it ends the worker. What holds: with an empty
  error policy the handler makes exactly one call, the \<^verbatim>\<open>error\<close> notification
  carrying the error and the process; it returns, and the worker lives on, if a
  listener is subscribed to \<^verbatim>\<open>error\<close> on the cluster, and it throws the error if
  none is.
\<close>

theorem empty_error_policy_notifies:
  "get_prop h evOpts ''error'' = Inr (Arr []) \<Longrightarrow>
   handler this h evOpts pid err =
     ([Emit ''error'' [PError err, PProcess pid]],
      if ''error'' \<in> fst ` set (listeners this) then Inr ()
      else Inl (Failed (Thrown err)))"
  by (simp add: handler_def configured_def js_when_def pure_def emit_error)

theorem empty_error_policy_notifies_witness:
  "handler (on \<lparr>options = Ref 0, app = Fun 0, instances = Num 2, listeners = []\<rparr> ''error'' (Fun 1))
           [[(''events'', Ref 1), (''listen'', Ref 2)], [(''error'', Arr [])], []]
           (Ref 1) 77 (Error ''boom'') =
     ([Emit ''error'' [PError (Error ''boom''), PProcess 77]], Inr ())"
  using empty_error_policy_notifies
    [of "[[(''events'', Ref 1), (''listen'', Ref 2)], [(''error'', Arr [])], []]" "Ref 1"
        "on \<lparr>options = Ref 0, app = Fun 0, instances = Num 2, listeners = []\<rparr> ''error'' (Fun 1)" 77 "Error ''boom''"]
  by (simp add: own_def on_def)

text \<open>
  C3, a cluster built with \<^verbatim>\<open>{events: {error: []}}\<close> that nobody subscribed to: the
  notification is attempted, and the error is thrown out of the handler.
\<close>

theorem empty_error_policy_unheard_counterexample:
  "new_Cluster 8 [Fun 0, Ref 0] [[(''events'', Ref 1)], [(''error'', Arr [])]] =
     Inr (\<lparr>options = Ref 0, app = Fun 0, instances = Num 8, listeners = []\<rparr>,
          [[(''events'', Ref 1), (''listen'', Ref 2)], [(''error'', Arr [])], []])
   \<and> handler \<lparr>options = Ref 0, app = Fun 0, instances = Num 8, listeners = []\<rparr>
          [[(''events'', Ref 1), (''listen'', Ref 2)], [(''error'', Arr [])], []]
          (Ref 1) 77 (Error ''boom'') =
     ([Emit ''error'' [PError (Error ''boom''), PProcess 77]],
      Inl (Failed (Thrown (Error ''boom''))))"
  by (simp add: new_Cluster_def arg_def normalizeOptions_def alloc_def default_field_def
        own_def handler_def configured_def js_when_def pure_def emit_def eff_def throw_def)

text \<open>
  C4. A construction whose first argument is missing or is not a function fails at
  once with the error of the constructor, whatever the other arguments, the store and
  the host are. The constructor does nothing before that check and returns no cluster
  object, so nothing can be forked or listened on.
\<close>

theorem new_Cluster_rejects_non_function:
  "typeof (arg args 0) \<noteq> ''function'' \<Longrightarrow>
   new_Cluster ncpus args h = Inl (Thrown (Error ''Target app is not specified''))"
  by (simp add: new_Cluster_def)

theorem new_Cluster_rejects_non_function_witness:
  "new_Cluster 8 [] [] = Inl (Thrown (Error ''Target app is not specified''))
   \<and> new_Cluster 8 [Str ''app'', Num 4] [] = Inl (Thrown (Error ''Target app is not specified''))"
  using new_Cluster_rejects_non_function [of "[]" 8 "[]"]
        new_Cluster_rejects_non_function [of "[Str ''app'', Num 4]" 8 "[]"]
  by (simp add: arg_def)

text \<open>
  C5. For an options object that has an events object of its own, normalization
  succeeds, and every entry of the events object (\<^verbatim>\<open>error\<close>, \<^verbatim>\<open>exit\<close> or any
  other key) is afterwards the value itself when the value was an array, and the
  one-element array of the value otherwise; no entry is added. Normalizing the result
  again changes nothing.
\<close>

theorem normalizeOptions_wraps_policy_entries:
  assumes "options cls = Ref a" and "a < length h"
    and "own (h ! a) ''events'' = Ref e" and "e < length h" and "e \<noteq> a"
  shows "\<exists>cls' h'. normalizeOptions ncpus cls h = Inr (cls', h')
           \<and> options cls' = Ref a \<and> own (h' ! a) ''events'' = Ref e
           \<and> (\<forall>k. map_of (h' ! e) k =
                    map_option (\<lambda>v. if isArray v then v else Arr [v]) (map_of (h ! e) k))
           \<and> normalizeOptions ncpus cls' h' = Inr (cls', h')"
proof -
  let ?cls' = "cls\<lparr>instances := (if truthy (instances cls) then instances cls
                                   else Num (int ncpus))\<rparr>"
  have ev: "own (h ! a) ''events'' = Ref e \<and> e < length h \<and> e \<noteq> a
         \<or> \<not> truthy (own (h ! a) ''events'') \<and> e = length h"
    using assms(3-5) by simp
  from normalizeOptions_run [OF assms(1,2) ev, of ncpus] obtain h' where
    r: "normalizeOptions ncpus cls h = Inr (?cls', h')"
       "a < length h'" "e < length h'"
       "own (h' ! a) ''events'' = Ref e"
       "truthy (own (h' ! a) ''listen'')"
       "\<forall>k. map_of (h' ! e) k =
               (if e < length h
                then map_option (\<lambda>v. if isArray v then v else Arr [v]) (map_of (h ! e) k)
                else None)"
    by (elim exE conjE) (rule that)
  have arrays: "\<forall>k v. map_of (h' ! e) k = Some v \<longrightarrow> isArray v"
  proof (intro allI impI)
    fix k v
    assume "map_of (h' ! e) k = Some v"
    then have "map_option (\<lambda>v. if isArray v then v else Arr [v]) (map_of (h ! e) k) = Some v"
      using r(6) assms(4) by simp
    then show "isArray v" by (rule wrapped_isArray)
  qed
  have o: "options ?cls' = Ref a" using assms(1) by simp
  have "normalizeOptions ncpus ?cls' h' = Inr (?cls', h')"
    using normalizeOptions_fixed [OF o r(2) r(4) r(3) r(5) arrays, of ncpus]
    by (cases "ncpus = 0") auto
  then show ?thesis
    using r(1,4,6) o assms(4) by (intro exI [of _ ?cls'] exI [of _ h']) simp
qed


theorem normalizeOptions_wraps_policy_entries_witness:
  "\<exists>cls' h'.
     normalizeOptions 8 \<lparr>options = Ref 0, app = Fun 0, instances = Num 2, listeners = []\<rparr>
        [[(''events'', Ref 1)],
         [(''error'', Str ''log''), (''exit'', Arr [Str ''log'', Str ''exit''])]] = Inr (cls', h')
     \<and> map_of (h' ! 1) ''error'' = Some (Arr [Str ''log''])
     \<and> map_of (h' ! 1) ''exit'' = Some (Arr [Str ''log'', Str ''exit''])
     \<and> normalizeOptions 8 cls' h' = Inr (cls', h')"
  using normalizeOptions_wraps_policy_entries
    [of "\<lparr>options = Ref 0, app = Fun 0, instances = Num 2, listeners = []\<rparr>" 0
        "[[(''events'', Ref 1)],
          [(''error'', Str ''log''), (''exit'', Arr [Str ''log'', Str ''exit''])]]" 1 8]
  by (auto simp: own_def)

text \<open>
  C6. \<^verbatim>\<open>new(app, 4)\<close> gives a cluster of 4 instances whose worker listens on port
  8080; \<^verbatim>\<open>new(app, {listen: {port: 9000}})\<close> gives a cluster with as many instances
  as the host has CPUs whose worker listens on port 9000.
\<close>

theorem new_Cluster_count_and_port:
  assumes "a < length h" and "l < length h"
    and "h ! a = [(''listen'', Ref l)]" and "h ! l = [(''port'', Num 9000)]"
  shows "(\<exists>c h'. new_Cluster ncpus [Fun f, Num 4] h = Inr (c, h') \<and> instances c = Num 4
            \<and> start c h' (rt\<lparr>isPrimary := False\<rparr>) =
                ([ProcessOn ''uncaughtException'', CreateServer False Undefined (Fun f),
                  Listen (Num 8080) Undefined Undefined Undefined], Inr ()))
       \<and> (\<exists>c h'. new_Cluster ncpus [Fun f, Ref a] h = Inr (c, h') \<and> instances c = Num (int ncpus)
            \<and> start c h' (rt\<lparr>isPrimary := False\<rparr>) =
                ([ProcessOn ''uncaughtException'', CreateServer False Undefined (Fun f),
                  Listen (Num 9000) Undefined Undefined Undefined], Inr ()))"
proof -
  have "l \<noteq> a" using assms(3,4) by auto
  then show ?thesis
    using assms
    by (simp add: new_Cluster_count new_Cluster_port start_def eff_def own_def js_or_def
          nth_append)
qed

theorem new_Cluster_count_and_port_witness:
  "(\<exists>c h'. new_Cluster 8 [Fun 0, Num 4] [[(''listen'', Ref 1)], [(''port'', Num 9000)]] = Inr (c, h')
        \<and> instances c = Num 4
        \<and> start c h' \<lparr>isPrimary = False, forked = 0, child_pid = (\<lambda>i. i)\<rparr> =
                ([ProcessOn ''uncaughtException'', CreateServer False Undefined (Fun 0),
                  Listen (Num 8080) Undefined Undefined Undefined], Inr ()))
   \<and> (\<exists>c h'. new_Cluster 8 [Fun 0, Ref 0] [[(''listen'', Ref 1)], [(''port'', Num 9000)]] = Inr (c, h')
        \<and> instances c = Num 8
        \<and> start c h' \<lparr>isPrimary = False, forked = 0, child_pid = (\<lambda>i. i)\<rparr> =
                ([ProcessOn ''uncaughtException'', CreateServer False Undefined (Fun 0),
                  Listen (Num 9000) Undefined Undefined Undefined], Inr ()))"
  using new_Cluster_count_and_port
    [of 0 "[[(''listen'', Ref 1)], [(''port'', Num 9000)]]" 1 8 0
        "\<lparr>isPrimary = False, forked = 0, child_pid = (\<lambda>i. i)\<rparr>"]
  by simp

text \<open>
  C7. The construction \<^verbatim>\<open>new(app, 0, {listen: {port: 9000}})\<close> has a third argument,
  and the constructor does not take it as the configuration: the cluster gets a new
  empty options object, and its worker listens on port 8080.
\<close>

theorem new_Cluster_zero_count_drops_options:
  "new_Cluster ncpus [Fun f, Num 0, Ref 0] [[(''listen'', Ref 1)], [(''port'', Num 9000)]] =
     Inr (\<lparr>options = Ref 2, app = Fun f, instances = Num (int ncpus), listeners = []\<rparr>,
          [[(''listen'', Ref 1)], [(''port'', Num 9000)],
           [(''events'', Ref 3), (''listen'', Ref 4)], [], []])
   \<and> start \<lparr>options = Ref 2, app = Fun f, instances = Num (int ncpus), listeners = []\<rparr>
         [[(''listen'', Ref 1)], [(''port'', Num 9000)],
          [(''events'', Ref 3), (''listen'', Ref 4)], [], []] (rt\<lparr>isPrimary := False\<rparr>) =
       ([ProcessOn ''uncaughtException'', CreateServer False Undefined (Fun f),
         Listen (Num 8080) Undefined Undefined Undefined], Inr ())"
  by (simp add: new_Cluster_def arg_def normalizeOptions_def alloc_def default_field_Ref
        own_def start_def eff_def js_or_def)




text \<open>
  C9. In the coordinator, with \<open>k\<close> instances, \<^verbatim>\<open>start()\<close> makes exactly these calls:
  for each of the \<open>k\<close> workers that the runtime hands out, in that order, the fork, then
  the \<^verbatim>\<open>start\<close> notification carrying that worker, then the subscription to its
  disconnect; and after the last worker the subscription to worker exits. The \<open>k\<close>
  workers are distinct.
\<close>

theorem start_forks_each_worker:
  assumes "isPrimary rt" and "instances this = Num k" and "options this = Ref a"
    and "a < length h"
  shows "start this h rt =
           (concat (map (\<lambda>w. [Fork w, Emit ''start'' [PWorker w], WorkerOn w ''disconnect''])
                        (forks (nat k) rt))
            @ [ClusterOn ''exit''], Inr ())
         \<and> length (forks (nat k) rt) = nat k
         \<and> distinct (forks (nat k) rt)"
  using assms
  by (simp add: start_def fork_loop_trace eff_def distinct_forks length_forks)

theorem start_forks_each_worker_witness:
  "start \<lparr>options = Ref 0, app = Fun 0, instances = Num 2, listeners = []\<rparr> [[]]
         \<lparr>isPrimary = True, forked = 0, child_pid = (\<lambda>i. 100 + i)\<rparr> =
     ([Fork \<lparr>worker_id = 1, worker_pid = 101\<rparr>,
       Emit ''start'' [PWorker \<lparr>worker_id = 1, worker_pid = 101\<rparr>],
       WorkerOn \<lparr>worker_id = 1, worker_pid = 101\<rparr> ''disconnect'',
       Fork \<lparr>worker_id = 2, worker_pid = 102\<rparr>,
       Emit ''start'' [PWorker \<lparr>worker_id = 2, worker_pid = 102\<rparr>],
       WorkerOn \<lparr>worker_id = 2, worker_pid = 102\<rparr> ''disconnect'',
       ClusterOn ''exit''], Inr ())"
  using start_forks_each_worker
    [of "\<lparr>isPrimary = True, forked = 0, child_pid = (\<lambda>i. 100 + i)\<rparr>"
        "\<lparr>options = Ref 0, app = Fun 0, instances = Num 2, listeners = []\<rparr>" 2 0 "[[]]"]
  by (simp add: cluster_fork_def numeral_2_eq_2)

text \<open>
  C10. A worker whose \<^verbatim>\<open>listen.port\<close> is \<^verbatim>\<open>0\<close> listens on port 8080, with exactly
  the calls of a worker whose \<^verbatim>\<open>listen\<close> object has no port.
\<close>

theorem port_zero_listens_on_default:
  assumes "\<not> isPrimary rt" and "options this = Ref a" and "a < length h"
    and "own (h ! a) ''listen'' = Ref l" and "l < length h"
    and "own (h ! l) ''port'' = Num 0 \<or> map_of (h ! l) ''port'' = None"
  shows "start this h rt =
    ([ProcessOn ''uncaughtException'',
      CreateServer (truthy (own (h ! a) ''isHttps'')) (own (h ! a) ''advanced'') (app this),
      Listen (Num 8080) (own (h ! l) ''hostname'')
             (own (h ! l) ''backlog'') (own (h ! l) ''listeningListener'')], Inr ())"
proof -
  have "js_or (own (h ! l) ''port'') (Num 8080) = Num 8080"
    using assms(6) by (auto simp: js_or_def own_def)
  then show ?thesis
    using start_worker [OF assms(1-5)] by simp
qed

theorem port_zero_listens_on_default_witness:
  "start \<lparr>options = Ref 0, app = Fun 0, instances = Num 2, listeners = []\<rparr>
         [[(''listen'', Ref 1)], [(''port'', Num 0), (''hostname'', Str ''localhost'')]]
         \<lparr>isPrimary = False, forked = 0, child_pid = (\<lambda>i. i)\<rparr> =
     ([ProcessOn ''uncaughtException'', CreateServer False Undefined (Fun 0),
       Listen (Num 8080) (Str ''localhost'') Undefined Undefined], Inr ())
   \<and> start \<lparr>options = Ref 0, app = Fun 0, instances = Num 2, listeners = []\<rparr>
         [[(''listen'', Ref 1)], [(''hostname'', Str ''localhost'')]]
         \<lparr>isPrimary = False, forked = 0, child_pid = (\<lambda>i. i)\<rparr> =
     ([ProcessOn ''uncaughtException'', CreateServer False Undefined (Fun 0),
       Listen (Num 8080) (Str ''localhost'') Undefined Undefined], Inr ())"
  using port_zero_listens_on_default
    [of "\<lparr>isPrimary = False, forked = 0, child_pid = (\<lambda>i. i)\<rparr>"
        "\<lparr>options = Ref 0, app = Fun 0, instances = Num 2, listeners = []\<rparr>" 0
        "[[(''listen'', Ref 1)], [(''port'', Num 0), (''hostname'', Str ''localhost'')]]" 1]
    port_zero_listens_on_default
    [of "\<lparr>isPrimary = False, forked = 0, child_pid = (\<lambda>i. i)\<rparr>"
        "\<lparr>options = Ref 0, app = Fun 0, instances = Num 2, listeners = []\<rparr>" 0
        "[[(''listen'', Ref 1)], [(''hostname'', Str ''localhost'')]]" 1]
  by (simp add: own_def)

end
